theory Spec2Isabelle
  imports Main
begin

section \<open>Python values\<close>

text \<open>
  The values a message can hold. Dictionaries are association lists in insertion order
  (a Python dict keeps it); a well-formed one has distinct keys. Strings are lists of
  code points below 256. Floating-point numbers are outside the model. \<open>PyObject n\<close>
  stands for any other object (a datetime, a set, a model instance, ...), which
  \<^verbatim>\<open>json.dumps\<close> rejects; \<open>KOther n\<close> for any other hashable key (a tuple, ...).
\<close>

datatype pykey = KStr string | KInt int | KBool bool | KNone | KOther nat

datatype pyval =
    PyNone
  | PyBool bool
  | PyInt int
  | PyStr string
  | PyList "pyval list"
  | PyTuple "pyval list"
  | PyDict "(pykey \<times> pyval) list"
  | PyObject nat

type_synonym message = "(pykey \<times> pyval) list"

text \<open>
  An exception raised inside the pika client is identified by a number; the exceptions
  that \<^verbatim>\<open>notify\<close> raises by itself are \<^verbatim>\<open>KeyError\<close> (a subscript with an absent
  key) and \<^verbatim>\<open>TypeError\<close> (\<^verbatim>\<open>json.dumps\<close> on a value it cannot encode).
\<close>

type_synonym exn = nat

datatype error = KeyError pykey | TypeError | ClientError exn

text \<open>\<^verbatim>\<open>message[k]\<close>\<close>

definition getitem :: "message \<Rightarrow> pykey \<Rightarrow> error + pyval" where
  "getitem m k = (case map_of m k of None \<Rightarrow> Inl (KeyError k) | Some v \<Rightarrow> Inr v)"

section \<open>\<^verbatim>\<open>json.dumps\<close> with its default options\<close>

text \<open>\<^verbatim>\<open>int.__repr__\<close>: decimal digits, with a minus sign for a negative number.\<close>

definition digit_char :: "nat \<Rightarrow> char" where
  "digit_char d = char_of (of_char CHR ''0'' + d)"

fun digits :: "nat \<Rightarrow> string" where
  "digits n = (if n < 10 then [digit_char n] else digits (n div 10) @ [digit_char (n mod 10)])"

declare digits.simps [simp del]

definition int_repr :: "int \<Rightarrow> string" where
  "int_repr i = (if i < 0 then CHR ''-'' # digits (nat (- i)) else digits (nat i))"

text \<open>
  \<^verbatim>\<open>encode_basestring_ascii\<close>: the string between double quotes, where the quote and
  the backslash are escaped, the control characters with a short escape use it, and
  every other character outside \<^verbatim>\<open>' '..'~'\<close> becomes \<^verbatim>\<open>\u00xx\<close> in lower-case
  hexadecimal.
\<close>

definition hex_char :: "nat \<Rightarrow> char" where
  "hex_char d = (if d < 10 then char_of (of_char CHR ''0'' + d)
                 else char_of (of_char CHR ''a'' + (d - 10)))"

definition escape_char :: "char \<Rightarrow> string" where
  "escape_char c =
    (if c = CHR 0x22 then [CHR 0x5C, CHR 0x22]
     else if c = CHR 0x5C then [CHR 0x5C, CHR 0x5C]
     else if c = CHR 0x0A then [CHR 0x5C, CHR ''n'']
     else if c = CHR 0x0D then [CHR 0x5C, CHR ''r'']
     else if c = CHR 0x09 then [CHR 0x5C, CHR ''t'']
     else if c = CHR 0x08 then [CHR 0x5C, CHR ''b'']
     else if c = CHR 0x0C then [CHR 0x5C, CHR ''f'']
     else if (of_char c :: nat) < 32 \<or> 126 < (of_char c :: nat)
       then [CHR 0x5C, CHR ''u'', CHR ''0'', CHR ''0'',
             hex_char (of_char c div 16), hex_char (of_char c mod 16)]
     else [c])"

definition encode_basestring_ascii :: "string \<Rightarrow> string" where
  "encode_basestring_ascii s = [CHR 0x22] @ concat (map escape_char s) @ [CHR 0x22]"

text \<open>
  A dictionary key is turned into a string before it is encoded: a string is kept,
  \<^verbatim>\<open>True\<close>, \<^verbatim>\<open>False\<close> and \<^verbatim>\<open>None\<close> become \<^verbatim>\<open>true\<close>, \<^verbatim>\<open>false\<close> and
  \<^verbatim>\<open>null\<close>, an integer its decimal form; any other key raises \<^verbatim>\<open>TypeError\<close>
  (\<^verbatim>\<open>skipkeys\<close> is off).
\<close>

fun key_ok :: "pykey \<Rightarrow> bool" where
  "key_ok (KOther n) = False"
| "key_ok k = True"

fun key_str :: "pykey \<Rightarrow> string" where
  "key_str (KStr s) = s"
| "key_str (KBool b) = (if b then ''true'' else ''false'')"
| "key_str KNone = ''null''"
| "key_str (KInt i) = int_repr i"
| "key_str (KOther n) = []"

text \<open>The item separator is \<^verbatim>\<open>', '\<close>, the key separator \<^verbatim>\<open>': '\<close>.\<close>

fun join :: "string list \<Rightarrow> string" where
  "join [] = []"
| "join [x] = x"
| "join (x # y # ys) = x @ '', '' @ join (y # ys)"

text \<open>Whether the encoder accepts the value: no object of an unknown type, no bad key.\<close>

fun serializable :: "pyval \<Rightarrow> bool"
  and serializable_list :: "pyval list \<Rightarrow> bool"
  and serializable_items :: "(pykey \<times> pyval) list \<Rightarrow> bool" where
  "serializable PyNone = True"
| "serializable (PyBool b) = True"
| "serializable (PyInt i) = True"
| "serializable (PyStr s) = True"
| "serializable (PyList xs) = serializable_list xs"
| "serializable (PyTuple xs) = serializable_list xs"
| "serializable (PyDict kvs) = serializable_items kvs"
| "serializable (PyObject n) = False"
| "serializable_list [] = True"
| "serializable_list (x # xs) = (serializable x \<and> serializable_list xs)"
| "serializable_items [] = True"
| "serializable_items (kv # kvs) =
     (key_ok (fst kv) \<and> serializable (snd kv) \<and> serializable_items kvs)"

text \<open>The text the encoder produces for a value it accepts.\<close>

fun encode :: "pyval \<Rightarrow> string"
  and encode_list :: "pyval list \<Rightarrow> string list"
  and encode_items :: "(pykey \<times> pyval) list \<Rightarrow> string list" where
  "encode PyNone = ''null''"
| "encode (PyBool b) = (if b then ''true'' else ''false'')"
| "encode (PyInt i) = int_repr i"
| "encode (PyStr s) = encode_basestring_ascii s"
| "encode (PyList xs) = ''['' @ join (encode_list xs) @ '']''"
| "encode (PyTuple xs) = ''['' @ join (encode_list xs) @ '']''"
| "encode (PyDict kvs) = ''{'' @ join (encode_items kvs) @ ''}''"
| "encode (PyObject n) = []"
| "encode_list [] = []"
| "encode_list (x # xs) = encode x # encode_list xs"
| "encode_items [] = []"
| "encode_items (kv # kvs) =
     (encode_basestring_ascii (key_str (fst kv)) @ '': '' @ encode (snd kv)) # encode_items kvs"

text \<open>
  \<^verbatim>\<open>json.dumps\<close> raises \<^verbatim>\<open>TypeError\<close> on a value the encoder does not accept. Its
  other failures depend on limits of the interpreter (\<^verbatim>\<open>ValueError\<close> for an integer with
  more digits than the conversion limit, where there is one; \<^verbatim>\<open>RecursionError\<close> for
  nesting beyond the recursion limit) and are not modelled: here these values encode.
\<close>

definition dumps :: "pyval \<Rightarrow> error + string" where
  "dumps v = (if serializable v then Inr (encode v) else Inl TypeError)"

section \<open>The pika client and the process-wide state\<close>

text \<open>
  The calls a program can make to the broker through pika, as a recording double sees
  them. A connection is identified by the position of the call that opened it in the
  record; the one channel opened on a connection carries the connection's number.
\<close>

datatype broker_call =
    BlockingConnection string
  | Channel nat
  | QueueDeclare nat pyval
  | ExchangeDeclare nat pyval
  | QueueBind nat pyval pyval pyval
  | BasicPublish nat string pyval string
  | Close nat

text \<open>
  The client's behaviour: \<open>URLParameters url\<close> is \<open>Some x\<close> when parsing the URL
  raises \<open>x\<close> (no network is involved), and \<open>respond past c\<close> is \<open>Some x\<close> when the
  call \<open>c\<close>, made after the calls \<open>past\<close>, raises \<open>x\<close>.
\<close>

record pika =
  URLParameters :: "string \<Rightarrow> exn option"
  respond :: "broker_call list \<Rightarrow> broker_call \<Rightarrow> exn option"

text \<open>
  The state outside the channel instance: the setting
  \<^verbatim>\<open>settings.NOTIFICATIONS_RABBIT_MQ_URL\<close> and the calls made to the broker so far.
\<close>

record world =
  NOTIFICATIONS_RABBIT_MQ_URL :: string
  calls :: "broker_call list"

definition call :: "pika \<Rightarrow> broker_call \<Rightarrow> world \<Rightarrow> (error + unit) \<times> world" where
  "call P c w =
    ((case respond P (calls w) c of None \<Rightarrow> Inr () | Some x \<Rightarrow> Inl (ClientError x)),
     w\<lparr>calls := calls w @ [c]\<rparr>)"

section \<open>The channel classes\<close>

text \<open>
  \<^verbatim>\<open>construct_message\<close> only builds a \<^verbatim>\<open>Notification\<close> from the stored keyword
  arguments and returns its \<^verbatim>\<open>to_json()\<close>; that class lives in
  \<^verbatim>\<open>notifications/models.py\<close>, which is not among the sources, so what it computes and
  what it touches is not known here and the method is left out.
\<close>

record BasicWebSocketChannel =
  notification_kwargs :: "(string \<times> pyval) list"

text \<open>\<^verbatim>\<open>BaseNotificationChannel.__init__(self, **kwargs)\<close>\<close>

definition init :: "(string \<times> pyval) list \<Rightarrow> BasicWebSocketChannel" where
  "init kwargs = \<lparr>notification_kwargs = kwargs\<rparr>"

text \<open>\<^verbatim>\<open>BasicWebSocketChannel._connect\<close>: the result is the new connection.\<close>

definition connect :: "pika \<Rightarrow> BasicWebSocketChannel \<Rightarrow> world \<Rightarrow> (error + nat) \<times> world" where
  "connect P self w =
    (let rabbit_mq_url = NOTIFICATIONS_RABBIT_MQ_URL w in
     case URLParameters P rabbit_mq_url of
       Some x \<Rightarrow> (Inl (ClientError x), w)
     | None \<Rightarrow>
        (case call P (BlockingConnection rabbit_mq_url) w of
           (Inl e, w') \<Rightarrow> (Inl e, w')
         | (Inr u, w') \<Rightarrow> (Inr (length (calls w)), w')))"

text \<open>\<^verbatim>\<open>BasicWebSocketChannel.notify\<close>\<close>

definition notify ::
  "pika \<Rightarrow> BasicWebSocketChannel \<Rightarrow> message \<Rightarrow> world \<Rightarrow> (error + unit) \<times> world" where
  "notify P self message w =
    (case connect P self w of
       (Inl e, w1) \<Rightarrow> (Inl e, w1)
     | (Inr connection, w1) \<Rightarrow>
    (case call P (Channel connection) w1 of
       (Inl e, w2) \<Rightarrow> (Inl e, w2)
     | (Inr u, w2) \<Rightarrow>
    (case getitem message (KStr ''source'') of
       Inl e \<Rightarrow> (Inl e, w2)
     | Inr source \<Rightarrow>
    (case call P (QueueDeclare connection source) w2 of
       (Inl e, w3) \<Rightarrow> (Inl e, w3)
     | (Inr u, w3) \<Rightarrow>
    (case dumps (PyDict message) of
       Inl e \<Rightarrow> (Inl e, w3)
     | Inr jsonified_messasge \<Rightarrow>
    (case getitem message (KStr ''recipient'') of
       Inl e \<Rightarrow> (Inl e, w3)
     | Inr recipient \<Rightarrow>
    (case call P (BasicPublish connection [] recipient jsonified_messasge) w3 of
       (Inl e, w4) \<Rightarrow> (Inl e, w4)
     | (Inr u, w4) \<Rightarrow> call P (Close connection) w4)))))))"

section \<open>Connections\<close>

text \<open>The connection a call is made on; opening a connection is made on none.\<close>

fun connection_of :: "broker_call \<Rightarrow> nat option" where
  "connection_of (BlockingConnection url) = None"
| "connection_of (Channel c) = Some c"
| "connection_of (QueueDeclare c q) = Some c"
| "connection_of (ExchangeDeclare c ex) = Some c"
| "connection_of (QueueBind c q ex rk) = Some c"
| "connection_of (BasicPublish c ex rk body) = Some c"
| "connection_of (Close c) = Some c"

section \<open>Example inputs\<close>

text \<open>A broker that accepts every call, one that rejects every publish, one that is down.\<close>

definition accepting_pika :: pika where
  "accepting_pika = \<lparr>URLParameters = (\<lambda>url. None), respond = (\<lambda>past c. None)\<rparr>"

definition publish_fails_pika :: pika where
  "publish_fails_pika =
    \<lparr>URLParameters = (\<lambda>url. None),
     respond = (\<lambda>past c. case c of BasicPublish n ex rk body \<Rightarrow> Some 1 | _ \<Rightarrow> None)\<rparr>"

definition unreachable_pika :: pika where
  "unreachable_pika =
    \<lparr>URLParameters = (\<lambda>url. None),
     respond = (\<lambda>past c. case c of BlockingConnection url \<Rightarrow> Some 2 | _ \<Rightarrow> None)\<rparr>"

definition example_world :: world where
  "example_world = \<lparr>NOTIFICATIONS_RABBIT_MQ_URL = ''amqp://localhost'', calls = []\<rparr>"

definition example_kwargs :: "(string \<times> pyval) list" where
  "example_kwargs =
    [(''source'', PyStr ''alice''), (''recipient'', PyStr ''bob''),
     (''verb'', PyStr ''liked your post'')]"

definition example_message :: message where
  "example_message =
    [(KStr ''source'', PyStr ''alice''), (KStr ''recipient'', PyStr ''bob''),
     (KStr ''verb'', PyStr ''liked your post'')]"

definition example_body :: string where
  "example_body =
    ''{\"source\": \"alice\", \"recipient\": \"bob\", \"verb\": \"liked your post\"}''"


definition no_source_message :: message where
  "no_source_message = [(KStr ''recipient'', PyStr ''bob'')]"

section \<open>Evaluating the examples\<close>

lemma dumps_example_message: "dumps (PyDict example_message) = Inr example_body"
  by (simp add: dumps_def example_message_def example_body_def
        encode_basestring_ascii_def escape_char_def)

lemma getitem_example_message:
  "getitem example_message (KStr ''source'') = Inr (PyStr ''alice'')"
  "getitem example_message (KStr ''recipient'') = Inr (PyStr ''bob'')"
  by (simp_all add: getitem_def example_message_def)

lemma notify_example:
  "notify accepting_pika self example_message example_world =
     (Inr (),
      example_world\<lparr>calls :=
        [BlockingConnection ''amqp://localhost'', Channel 0,
         QueueDeclare 0 (PyStr ''alice''),
         BasicPublish 0 [] (PyStr ''bob'') example_body, Close 0]\<rparr>)"
  by (simp add: notify_def connect_def call_def getitem_example_message
        dumps_example_message accepting_pika_def example_world_def)


lemma notify_publish_fails_example:
  "notify publish_fails_pika self example_message example_world =
     (Inl (ClientError 1),
      example_world\<lparr>calls :=
        [BlockingConnection ''amqp://localhost'', Channel 0,
         QueueDeclare 0 (PyStr ''alice''),
         BasicPublish 0 [] (PyStr ''bob'') example_body]\<rparr>)"
  by (simp add: notify_def connect_def call_def getitem_example_message
        dumps_example_message publish_fails_pika_def example_world_def)

lemma connect_unreachable_example:
  "connect unreachable_pika self example_world =
     (Inl (ClientError 2),
      example_world\<lparr>calls := [BlockingConnection ''amqp://localhost'']\<rparr>)"
  by (simp add: connect_def call_def unreachable_pika_def example_world_def)

lemma notify_no_source_example:
  "notify accepting_pika self no_source_message example_world =
     (Inl (KeyError (KStr ''source'')),
      example_world\<lparr>calls := [BlockingConnection ''amqp://localhost'', Channel 0]\<rparr>)"
  by (simp add: notify_def connect_def call_def getitem_def
        no_source_message_def accepting_pika_def example_world_def)

lemma notify_example_again:
  "notify accepting_pika self example_message
     (example_world\<lparr>calls := cs, NOTIFICATIONS_RABBIT_MQ_URL := ''amqp://other''\<rparr>) =
     (Inr (),
      example_world\<lparr>calls := cs @
        [BlockingConnection ''amqp://other'', Channel (length cs),
         QueueDeclare (length cs) (PyStr ''alice''),
         BasicPublish (length cs) [] (PyStr ''bob'') example_body, Close (length cs)],
        NOTIFICATIONS_RABBIT_MQ_URL := ''amqp://other''\<rparr>)"
  by (simp add: notify_def connect_def call_def getitem_example_message
        dumps_example_message accepting_pika_def example_world_def)

section \<open>What \<^verbatim>\<open>notify\<close> sends to the broker\<close>

text \<open>
  C1. When the message has the keys \<^verbatim>\<open>source\<close> and \<^verbatim>\<open>recipient\<close> and \<^verbatim>\<open>notify\<close>
  returns normally, the calls it has made are, in this order: open the connection with
  the configured URL, open a channel, declare the queue named \<^verbatim>\<open>message['source']\<close>,
  publish to the default exchange (the empty name) with routing key
  \<^verbatim>\<open>message['recipient']\<close> and the JSON text of the message as body, close the
  connection. So there is exactly one queue declaration, followed by exactly one
  publish, and neither an exchange declaration nor a binding.
\<close>

theorem notify_success_calls:
  assumes "map_of message (KStr ''source'') = Some source"
    and "map_of message (KStr ''recipient'') = Some recipient"
    and "notify P self message w = (Inr (), w')"
  shows "\<exists>body. dumps (PyDict message) = Inr body \<and>
           calls w' = calls w @
             [BlockingConnection (NOTIFICATIONS_RABBIT_MQ_URL w),
              Channel (length (calls w)),
              QueueDeclare (length (calls w)) source,
              BasicPublish (length (calls w)) [] recipient body,
              Close (length (calls w))]"
  using assms
  by (auto simp: notify_def connect_def call_def getitem_def Let_def
           split: option.splits sum.splits prod.splits)

theorem notify_success_calls_witness:
  "map_of example_message (KStr ''source'') = Some (PyStr ''alice'') \<and>
   map_of example_message (KStr ''recipient'') = Some (PyStr ''bob'') \<and>
   fst (notify accepting_pika (init example_kwargs) example_message example_world) = Inr () \<and>
   calls (snd (notify accepting_pika (init example_kwargs) example_message example_world)) =
     [BlockingConnection ''amqp://localhost'', Channel 0, QueueDeclare 0 (PyStr ''alice''),
      BasicPublish 0 [] (PyStr ''bob'') example_body, Close 0]"
proof -
  have src: "map_of example_message (KStr ''source'') = Some (PyStr ''alice'')"
    and rcp: "map_of example_message (KStr ''recipient'') = Some (PyStr ''bob'')"
    by (simp_all add: example_message_def)
  have run: "notify accepting_pika (init example_kwargs) example_message example_world =
      (Inr (), snd (notify accepting_pika (init example_kwargs) example_message example_world))"
    by (simp add: notify_example)
  from notify_success_calls [OF src rcp run] src rcp show ?thesis
    by (simp add: notify_example)
qed




section \<open>Closing the connection\<close>

text \<open>
  C3, as stated, fails: when the publish call raises, \<^verbatim>\<open>notify\<close> raises the same
  error and the calls it has made end with the publish; the connection is not closed.
\<close>

theorem notify_close_counterexample:
  "fst (notify publish_fails_pika (init example_kwargs) example_message example_world) =
     Inl (ClientError 1) \<and>
   calls (snd (notify publish_fails_pika (init example_kwargs) example_message example_world)) =
     [BlockingConnection ''amqp://localhost'', Channel 0, QueueDeclare 0 (PyStr ''alice''),
      BasicPublish 0 [] (PyStr ''bob'') example_body]"
  by (simp add: notify_publish_fails_example)

text \<open>
  A broker call that raises is the last call \<^verbatim>\<open>notify\<close> makes, and \<^verbatim>\<open>notify\<close> raises
  the error of that call.
\<close>

lemma notify_raising_call:
  assumes "notify P self message w = (r, w')"
    and "calls w' = calls w @ pre @ c # post"
    and "respond P (calls w @ pre) c = Some x"
  shows "post = [] \<and> r = Inl (ClientError x)"
  using assms
  by (auto simp: notify_def connect_def call_def getitem_def Let_def
        append_eq_Cons_conv Cons_eq_append_conv
           split: option.splits sum.splits prod.splits)

text \<open>
  C3, amended. Whenever \<^verbatim>\<open>notify\<close> returns normally, its last call has closed the
  connection it opened. A close call is made only on that connection and only after
  the four calls before it, the publish having been accepted. A broker call that raises
  is the last call made, and its error is the one \<^verbatim>\<open>notify\<close> raises. In particular,
  when the publish is reached and raises, \<^verbatim>\<open>notify\<close> raises that error and the calls it
  has made end with the publish: the connection is not closed.
\<close>

theorem notify_close:
  assumes "notify P self message w = (r, w')"
  shows "(r = Inr () \<longrightarrow> (\<exists>cs. calls w' = calls w @ cs @ [Close (length (calls w))])) \<and>
         (\<forall>c. Close c \<in> set (drop (length (calls w)) (calls w')) \<longrightarrow>
            c = length (calls w) \<and>
            (\<exists>source recipient body.
               calls w' = calls w @
                 [BlockingConnection (NOTIFICATIONS_RABBIT_MQ_URL w),
                  Channel c, QueueDeclare c source,
                  BasicPublish c [] recipient body, Close c] \<and>
               respond P (calls w @
                 [BlockingConnection (NOTIFICATIONS_RABBIT_MQ_URL w),
                  Channel c, QueueDeclare c source]) (BasicPublish c [] recipient body) = None)) \<and>
         (\<forall>pre c post x.
            calls w' = calls w @ pre @ c # post \<and> respond P (calls w @ pre) c = Some x \<longrightarrow>
            post = [] \<and> r = Inl (ClientError x)) \<and>
         (\<forall>source recipient body x.
            map_of message (KStr ''source'') = Some source \<and>
            map_of message (KStr ''recipient'') = Some recipient \<and>
            dumps (PyDict message) = Inr body \<and>
            URLParameters P (NOTIFICATIONS_RABBIT_MQ_URL w) = None \<and>
            respond P (calls w) (BlockingConnection (NOTIFICATIONS_RABBIT_MQ_URL w)) = None \<and>
            respond P (calls w @ [BlockingConnection (NOTIFICATIONS_RABBIT_MQ_URL w)])
              (Channel (length (calls w))) = None \<and>
            respond P (calls w @ [BlockingConnection (NOTIFICATIONS_RABBIT_MQ_URL w),
                Channel (length (calls w))])
              (QueueDeclare (length (calls w)) source) = None \<and>
            respond P (calls w @ [BlockingConnection (NOTIFICATIONS_RABBIT_MQ_URL w),
                Channel (length (calls w)), QueueDeclare (length (calls w)) source])
              (BasicPublish (length (calls w)) [] recipient body) = Some x \<longrightarrow>
            r = Inl (ClientError x) \<and>
            calls w' = calls w @
              [BlockingConnection (NOTIFICATIONS_RABBIT_MQ_URL w),
               Channel (length (calls w)), QueueDeclare (length (calls w)) source,
               BasicPublish (length (calls w)) [] recipient body])"
proof (intro conjI)
  show "r = Inr () \<longrightarrow> (\<exists>cs. calls w' = calls w @ cs @ [Close (length (calls w))])"
    using assms
    by (auto simp: notify_def connect_def call_def getitem_def Let_def
             split: option.splits sum.splits prod.splits)
  show "\<forall>c. Close c \<in> set (drop (length (calls w)) (calls w')) \<longrightarrow>
            c = length (calls w) \<and>
            (\<exists>source recipient body.
               calls w' = calls w @
                 [BlockingConnection (NOTIFICATIONS_RABBIT_MQ_URL w),
                  Channel c, QueueDeclare c source,
                  BasicPublish c [] recipient body, Close c] \<and>
               respond P (calls w @
                 [BlockingConnection (NOTIFICATIONS_RABBIT_MQ_URL w),
                  Channel c, QueueDeclare c source]) (BasicPublish c [] recipient body) = None)"
    using assms
    by (auto simp: notify_def connect_def call_def getitem_def Let_def
             split: option.splits sum.splits prod.splits)
  show "\<forall>pre c post x.
            calls w' = calls w @ pre @ c # post \<and> respond P (calls w @ pre) c = Some x \<longrightarrow>
            post = [] \<and> r = Inl (ClientError x)"
    using notify_raising_call [OF assms] by blast
  show "\<forall>source recipient body x.
            map_of message (KStr ''source'') = Some source \<and>
            map_of message (KStr ''recipient'') = Some recipient \<and>
            dumps (PyDict message) = Inr body \<and>
            URLParameters P (NOTIFICATIONS_RABBIT_MQ_URL w) = None \<and>
            respond P (calls w) (BlockingConnection (NOTIFICATIONS_RABBIT_MQ_URL w)) = None \<and>
            respond P (calls w @ [BlockingConnection (NOTIFICATIONS_RABBIT_MQ_URL w)])
              (Channel (length (calls w))) = None \<and>
            respond P (calls w @ [BlockingConnection (NOTIFICATIONS_RABBIT_MQ_URL w),
                Channel (length (calls w))])
              (QueueDeclare (length (calls w)) source) = None \<and>
            respond P (calls w @ [BlockingConnection (NOTIFICATIONS_RABBIT_MQ_URL w),
                Channel (length (calls w)), QueueDeclare (length (calls w)) source])
              (BasicPublish (length (calls w)) [] recipient body) = Some x \<longrightarrow>
            r = Inl (ClientError x) \<and>
            calls w' = calls w @
              [BlockingConnection (NOTIFICATIONS_RABBIT_MQ_URL w),
               Channel (length (calls w)), QueueDeclare (length (calls w)) source,
               BasicPublish (length (calls w)) [] recipient body]"
    using assms
    by (auto simp: notify_def connect_def call_def getitem_def Let_def
             split: option.splits sum.splits prod.splits)
qed

theorem notify_close_witness:
  "notify accepting_pika (init example_kwargs) example_message example_world =
     (Inr (),
      example_world\<lparr>calls :=
        [BlockingConnection ''amqp://localhost'', Channel 0,
         QueueDeclare 0 (PyStr ''alice''),
         BasicPublish 0 [] (PyStr ''bob'') example_body, Close 0]\<rparr>) \<and>
   Close 0 \<in> set (drop (length (calls example_world))
     [BlockingConnection ''amqp://localhost'', Channel 0, QueueDeclare 0 (PyStr ''alice''),
      BasicPublish 0 [] (PyStr ''bob'') example_body, Close 0]) \<and>
   respond accepting_pika
     [BlockingConnection ''amqp://localhost'', Channel 0, QueueDeclare 0 (PyStr ''alice'')]
     (BasicPublish 0 [] (PyStr ''bob'') example_body) = None \<and>
   respond publish_fails_pika
     [BlockingConnection ''amqp://localhost'', Channel 0, QueueDeclare 0 (PyStr ''alice'')]
     (BasicPublish 0 [] (PyStr ''bob'') example_body) = Some 1 \<and>
   notify publish_fails_pika (init example_kwargs) example_message example_world =
     (Inl (ClientError 1),
      example_world\<lparr>calls :=
        [BlockingConnection ''amqp://localhost'', Channel 0,
         QueueDeclare 0 (PyStr ''alice''),
         BasicPublish 0 [] (PyStr ''bob'') example_body]\<rparr>)"
proof -
  let ?self = "init example_kwargs"
  let ?three = "[BlockingConnection ''amqp://localhost'', Channel 0,
      QueueDeclare 0 (PyStr ''alice'')]"
  let ?publish = "BasicPublish 0 [] (PyStr ''bob'') example_body"
  have empty: "calls example_world = []"
    and url: "NOTIFICATIONS_RABBIT_MQ_URL example_world = ''amqp://localhost''"
    by (simp_all add: example_world_def)
  have accepted: "respond accepting_pika ?three ?publish = None"
    by (simp add: accepting_pika_def)
  have refused: "respond publish_fails_pika ?three ?publish = Some 1"
    by (simp add: publish_fails_pika_def)
  have good: "notify accepting_pika ?self example_message example_world =
      (Inr (), example_world\<lparr>calls := ?three @ [?publish, Close 0]\<rparr>)"
    using notify_example [of ?self] by simp
  have bad: "notify publish_fails_pika ?self example_message example_world =
      (Inl (ClientError 1), example_world\<lparr>calls := ?three @ [?publish]\<rparr>)"
    using notify_publish_fails_example [of ?self] by simp
  from notify_close [OF good]
  have "Close 0 \<in> set (drop (length (calls example_world)) (?three @ [?publish, Close 0])) \<longrightarrow>
      0 = length (calls example_world)"
    by simp
  moreover from notify_close [OF bad]
  have "calls (example_world\<lparr>calls := ?three @ [?publish]\<rparr>) =
        calls example_world @ ?three @ ?publish # [] \<and>
        respond publish_fails_pika (calls example_world @ ?three) ?publish = Some 1 \<longrightarrow>
      Inl (ClientError 1) = (Inl (ClientError 1) :: error + unit)"
    by simp
  ultimately show ?thesis
    using good bad accepted refused empty by simp
qed

section \<open>A failing connection\<close>

text \<open>
  C5. When \<^verbatim>\<open>_connect\<close> raises, \<^verbatim>\<open>notify\<close> raises the same error and stops there:
  the only broker call it can have made is the attempt to connect.
\<close>

theorem notify_connect_error:
  assumes "connect P self w = (Inl e, w1)"
  shows "notify P self message w = (Inl e, w1) \<and>
         (calls w1 = calls w \<or>
          calls w1 = calls w @ [BlockingConnection (NOTIFICATIONS_RABBIT_MQ_URL w)])"
  using assms
  by (auto simp: notify_def connect_def call_def Let_def
           split: option.splits sum.splits prod.splits)

theorem notify_connect_error_witness:
  "connect unreachable_pika (init example_kwargs) example_world =
     (Inl (ClientError 2),
      example_world\<lparr>calls := [BlockingConnection ''amqp://localhost'']\<rparr>) \<and>
   notify unreachable_pika (init example_kwargs) example_message example_world =
     (Inl (ClientError 2),
      example_world\<lparr>calls := [BlockingConnection ''amqp://localhost'']\<rparr>)"
  using notify_connect_error [OF connect_unreachable_example [of "init example_kwargs"],
      of example_message]
  by (simp add: connect_unreachable_example)

text \<open>
  When the URL of the setting parses, \<^verbatim>\<open>notify\<close> starts by opening a connection with
  it, and all its further calls are made on that connection.
\<close>

lemma notify_connects:
  assumes "notify P self message w = (r, w')"
    and "URLParameters P (NOTIFICATIONS_RABBIT_MQ_URL w) = None"
  shows "\<exists>rest. calls w' = calls w @ BlockingConnection (NOTIFICATIONS_RABBIT_MQ_URL w) # rest \<and>
             list_all (\<lambda>c. connection_of c = Some (length (calls w))) rest"
  using assms
  by (auto simp: notify_def connect_def call_def getitem_def Let_def
           split: option.splits sum.splits prod.splits)

section \<open>The state of a channel instance\<close>

text \<open>
  C6. Take two \<^verbatim>\<open>notify\<close> calls on one instance, the broker URL setting having changed
  in between. Each call whose URL parses starts by opening a connection with the URL the
  setting holds at that moment, and every further call it makes is on that new
  connection: the second call uses the new URL and nothing of the first connection.
  When both calls return normally, each has opened a connection of its own, declared
  the queue on it and closed it. The first call leaves nothing in the instance: the
  second call does what it would do on an instance just constructed, with any keyword
  arguments.
\<close>

theorem notify_fresh_connection:
  assumes "notify P self message w = (r1, w1)"
    and "notify P self message (w1\<lparr>NOTIFICATIONS_RABBIT_MQ_URL := url2\<rparr>) = (r2, w2)"
  shows "(URLParameters P (NOTIFICATIONS_RABBIT_MQ_URL w) = None \<longrightarrow>
          (\<exists>rest. calls w1 = calls w @ BlockingConnection (NOTIFICATIONS_RABBIT_MQ_URL w) # rest \<and>
             list_all (\<lambda>c. connection_of c = Some (length (calls w))) rest)) \<and>
         (URLParameters P url2 = None \<longrightarrow>
          (\<exists>rest. calls w2 = calls w1 @ BlockingConnection url2 # rest \<and>
             list_all (\<lambda>c. connection_of c = Some (length (calls w1))) rest)) \<and>
         (r1 = Inr () \<and> r2 = Inr () \<longrightarrow>
          (\<exists>source recipient body.
            calls w2 = calls w @
              [BlockingConnection (NOTIFICATIONS_RABBIT_MQ_URL w),
               Channel (length (calls w)),
               QueueDeclare (length (calls w)) source,
               BasicPublish (length (calls w)) [] recipient body,
               Close (length (calls w)),
               BlockingConnection url2,
               Channel (length (calls w) + 5),
               QueueDeclare (length (calls w) + 5) source,
               BasicPublish (length (calls w) + 5) [] recipient body,
               Close (length (calls w) + 5)])) \<and>
         (\<forall>kwargs. notify P (init kwargs) message (w1\<lparr>NOTIFICATIONS_RABBIT_MQ_URL := url2\<rparr>)
            = (r2, w2))"
proof (intro conjI)
  show "URLParameters P (NOTIFICATIONS_RABBIT_MQ_URL w) = None \<longrightarrow>
          (\<exists>rest. calls w1 = calls w @ BlockingConnection (NOTIFICATIONS_RABBIT_MQ_URL w) # rest \<and>
             list_all (\<lambda>c. connection_of c = Some (length (calls w))) rest)"
    using notify_connects [OF assms(1)] by simp
  show "URLParameters P url2 = None \<longrightarrow>
          (\<exists>rest. calls w2 = calls w1 @ BlockingConnection url2 # rest \<and>
             list_all (\<lambda>c. connection_of c = Some (length (calls w1))) rest)"
    using notify_connects [OF assms(2)] by simp
  show "r1 = Inr () \<and> r2 = Inr () \<longrightarrow>
          (\<exists>source recipient body.
            calls w2 = calls w @
              [BlockingConnection (NOTIFICATIONS_RABBIT_MQ_URL w),
               Channel (length (calls w)),
               QueueDeclare (length (calls w)) source,
               BasicPublish (length (calls w)) [] recipient body,
               Close (length (calls w)),
               BlockingConnection url2,
               Channel (length (calls w) + 5),
               QueueDeclare (length (calls w) + 5) source,
               BasicPublish (length (calls w) + 5) [] recipient body,
               Close (length (calls w) + 5)])"
    using assms
    by (auto simp: notify_def connect_def call_def getitem_def Let_def
             split: option.splits sum.splits prod.splits)
  show "\<forall>kwargs. notify P (init kwargs) message (w1\<lparr>NOTIFICATIONS_RABBIT_MQ_URL := url2\<rparr>)
            = (r2, w2)"
    using assms(2) by (simp add: notify_def connect_def)
qed

theorem notify_fresh_connection_witness:
  "URLParameters accepting_pika (NOTIFICATIONS_RABBIT_MQ_URL example_world) = None \<and>
   URLParameters accepting_pika ''amqp://other'' = None \<and>
   notify accepting_pika (init example_kwargs) example_message example_world =
     (Inr (),
      example_world\<lparr>calls :=
        [BlockingConnection ''amqp://localhost'', Channel 0, QueueDeclare 0 (PyStr ''alice''),
         BasicPublish 0 [] (PyStr ''bob'') example_body, Close 0]\<rparr>) \<and>
   notify accepting_pika (init example_kwargs) example_message
     (example_world\<lparr>calls :=
        [BlockingConnection ''amqp://localhost'', Channel 0, QueueDeclare 0 (PyStr ''alice''),
         BasicPublish 0 [] (PyStr ''bob'') example_body, Close 0],
        NOTIFICATIONS_RABBIT_MQ_URL := ''amqp://other''\<rparr>) =
     (Inr (),
      example_world\<lparr>calls :=
        [BlockingConnection ''amqp://localhost'', Channel 0, QueueDeclare 0 (PyStr ''alice''),
         BasicPublish 0 [] (PyStr ''bob'') example_body, Close 0,
         BlockingConnection ''amqp://other'', Channel 5, QueueDeclare 5 (PyStr ''alice''),
         BasicPublish 5 [] (PyStr ''bob'') example_body, Close 5],
        NOTIFICATIONS_RABBIT_MQ_URL := ''amqp://other''\<rparr>) \<and>
   notify accepting_pika (init []) example_message
     (example_world\<lparr>calls :=
        [BlockingConnection ''amqp://localhost'', Channel 0, QueueDeclare 0 (PyStr ''alice''),
         BasicPublish 0 [] (PyStr ''bob'') example_body, Close 0],
        NOTIFICATIONS_RABBIT_MQ_URL := ''amqp://other''\<rparr>) =
     (Inr (),
      example_world\<lparr>calls :=
        [BlockingConnection ''amqp://localhost'', Channel 0, QueueDeclare 0 (PyStr ''alice''),
         BasicPublish 0 [] (PyStr ''bob'') example_body, Close 0,
         BlockingConnection ''amqp://other'', Channel 5, QueueDeclare 5 (PyStr ''alice''),
         BasicPublish 5 [] (PyStr ''bob'') example_body, Close 5],
        NOTIFICATIONS_RABBIT_MQ_URL := ''amqp://other''\<rparr>)"
proof -
  let ?self = "init example_kwargs"
  let ?cs = "[BlockingConnection ''amqp://localhost'', Channel 0,
         QueueDeclare 0 (PyStr ''alice''),
         BasicPublish 0 [] (PyStr ''bob'') example_body, Close 0]"
  let ?w2 = "example_world\<lparr>calls := ?cs @
        [BlockingConnection ''amqp://other'', Channel (length ?cs),
         QueueDeclare (length ?cs) (PyStr ''alice''),
         BasicPublish (length ?cs) [] (PyStr ''bob'') example_body, Close (length ?cs)],
        NOTIFICATIONS_RABBIT_MQ_URL := ''amqp://other''\<rparr>"
  have parses: "URLParameters accepting_pika url = None" for url
    by (simp add: accepting_pika_def)
  have first: "notify accepting_pika ?self example_message example_world =
      (Inr (), example_world\<lparr>calls := ?cs\<rparr>)"
    by (rule notify_example)
  have second: "notify accepting_pika ?self example_message
      (example_world\<lparr>calls := ?cs\<rparr>\<lparr>NOTIFICATIONS_RABBIT_MQ_URL := ''amqp://other''\<rparr>) =
      (Inr (), ?w2)"
    using notify_example_again [of ?self ?cs] by simp
  from notify_fresh_connection [OF first second]
  have "notify accepting_pika (init []) example_message
      (example_world\<lparr>calls := ?cs\<rparr>\<lparr>NOTIFICATIONS_RABBIT_MQ_URL := ''amqp://other''\<rparr>) =
      (Inr (), ?w2)"
    by blast
  with first second parses show ?thesis
    by simp
qed

text \<open>
  C7. \<^verbatim>\<open>notify\<close> does not read the instance: two instances, whatever keyword
  arguments they store, give the same result and the same broker calls for the same
  message in the same state.
\<close>

theorem notify_ignores_kwargs:
  "notify P (init kwargs1) message w = notify P (init kwargs2) message w"
  by (simp add: notify_def connect_def)

section \<open>Missing keys\<close>

text \<open>
  C10. \<^verbatim>\<open>notify\<close> checks nothing before it connects. When the message has both keys,
  \<^verbatim>\<open>notify\<close> never raises \<^verbatim>\<open>KeyError\<close>. When the key \<^verbatim>\<open>source\<close> is absent,
  \<^verbatim>\<open>notify\<close> always raises and never closes a connection; the error is the
  \<^verbatim>\<open>KeyError\<close> exactly when the connection and the channel have been opened, and
  these two calls are then the ones it has made.
\<close>

theorem notify_key_lookups:
  assumes "notify P self message w = (r, w')"
  shows "(KStr ''source'' \<in> dom (map_of message) \<and> KStr ''recipient'' \<in> dom (map_of message)
            \<longrightarrow> (\<forall>k. r \<noteq> Inl (KeyError k))) \<and>
         (KStr ''source'' \<notin> dom (map_of message) \<longrightarrow>
            (\<exists>e. r = Inl e) \<and>
            (\<forall>c. Close c \<notin> set (drop (length (calls w)) (calls w'))) \<and>
            (r = Inl (KeyError (KStr ''source'')) \<longleftrightarrow>
               URLParameters P (NOTIFICATIONS_RABBIT_MQ_URL w) = None \<and>
               respond P (calls w) (BlockingConnection (NOTIFICATIONS_RABBIT_MQ_URL w)) = None \<and>
               respond P (calls w @ [BlockingConnection (NOTIFICATIONS_RABBIT_MQ_URL w)])
                 (Channel (length (calls w))) = None) \<and>
            (r = Inl (KeyError (KStr ''source'')) \<longrightarrow>
               calls w' = calls w @
                 [BlockingConnection (NOTIFICATIONS_RABBIT_MQ_URL w), Channel (length (calls w))]))"
  using assms
  by (auto simp: notify_def connect_def call_def getitem_def Let_def dom_def dumps_def
           split: option.splits sum.splits prod.splits if_splits)

theorem notify_key_lookups_witness:
  "KStr ''source'' \<in> dom (map_of example_message) \<and>
   KStr ''recipient'' \<in> dom (map_of example_message) \<and>
   fst (notify accepting_pika (init example_kwargs) example_message example_world) = Inr () \<and>
   KStr ''source'' \<notin> dom (map_of no_source_message) \<and>
   notify accepting_pika (init example_kwargs) no_source_message example_world =
     (Inl (KeyError (KStr ''source'')),
      example_world\<lparr>calls := [BlockingConnection ''amqp://localhost'', Channel 0]\<rparr>)"
proof -
  have present: "KStr ''source'' \<in> dom (map_of example_message)"
      "KStr ''recipient'' \<in> dom (map_of example_message)"
    by (simp_all add: example_message_def)
  have absent: "KStr ''source'' \<notin> dom (map_of no_source_message)"
    by (simp add: no_source_message_def)
  from notify_key_lookups [OF notify_example [of "init example_kwargs"]]
    notify_key_lookups [OF notify_no_source_example [of "init example_kwargs"]]
    present absent
  show ?thesis
    by (simp add: notify_example notify_no_source_example)
qed

end
